theory Spec2Isabelle
  imports Main
begin

section \<open>Values, storage, network replies and effects\<close>

text \<open>
  The screens of \<^verbatim>\<open>src/app.js\<close> are React components whose handlers are
  asynchronous functions. A handler is modelled by the list of effects it performs, in
  order, given the outcome of every operation it awaits (a storage read, a network
  request, the camera). State kept with \<^verbatim>\<open>useState\<close> is a record that
  the handler returns updated.
\<close>

text \<open>JavaScript values as far as the handlers test them, and the test of \<^verbatim>\<open>if (v)\<close>.\<close>

datatype js_value = JUndefined | JNull | JBool bool | JNum int | JStr string

fun truthy :: "js_value \<Rightarrow> bool" where
  "truthy JUndefined = False"
| "truthy JNull = False"
| "truthy (JBool b) = b"
| "truthy (JNum n) = (n \<noteq> 0)"
| "truthy (JStr s) = (s \<noteq> [])"

text \<open>
  \<^verbatim>\<open>AsyncStorage.getItem\<close> resolves to the stored string, or to null when the key
  is absent, or it rejects.
\<close>

datatype storage_read = StorageError | Item "string option"

fun item_value :: "string option \<Rightarrow> js_value" where
  "item_value None = JNull"
| "item_value (Some s) = JStr s"

text \<open>The header \<^verbatim>\<open>`Bearer ${token}`\<close>: a null token is interpolated as the text null.\<close>

fun bearer :: "string option \<Rightarrow> string" where
  "bearer None = ''Bearer null''"
| "bearer (Some t) = ''Bearer '' @ t"

text \<open>
  \<^verbatim>\<open>fetch\<close> rejects (a network error), or resolves to a response with a status and
  a body. What \<^verbatim>\<open>response.json()\<close> makes of the body is one of three things:
  it rejects (the body is not JSON), written \<open>Fetched status None\<close>; it resolves to a
  value whose fields read as \<open>d\<close> (a field that is absent reads as undefined), written
  \<open>Fetched status (Some d)\<close>; or it resolves to \<^verbatim>\<open>null\<close>, of which reading
  a field throws, written \<open>Fetched_null status\<close>. A handler that does not call
  \<^verbatim>\<open>response.json()\<close> sees the status only.
  \<^verbatim>\<open>response.ok\<close> is a status from 200 to 299.
\<close>

datatype 'd fetch_result = Fetch_failed | Fetched nat "'d option" | Fetched_null nat

definition ok :: "nat \<Rightarrow> bool" where
  "ok status = (200 \<le> status \<and> status \<le> 299)"

datatype request =
    Post_sessions_create string string
  | Post_sessions_consent string js_value bool
  | Get_sessions_status string js_value
  | Post_sessions_start string js_value
  | Post_analysis_upload string js_value string

record record_options =
  quality :: string
  videoBitrate :: nat
  audioBitrate :: nat
  maxDuration :: nat

datatype callback = Cb_checkSessionStatus | Cb_goBack

datatype action =
    Alert string string "callback option"
  | Console_error string
  | Console_log string
  | Console_warn
  | Fetch request
  | SetTimeout callback nat
  | Navigate string js_value string
  | GoBack
  | RecordAsync record_options
  | StopRecording

section \<open>App: the authentication check at startup\<close>

record app =
  isAuthenticated :: bool
  isLoading :: bool

definition App_initial :: app where
  "App_initial = \<lparr>isAuthenticated = False, isLoading = True\<rparr>"

definition checkAuthStatus :: "storage_read \<Rightarrow> app \<Rightarrow> app \<times> action list" where
  "checkAuthStatus r st =
     (case r of
        StorageError \<Rightarrow> (st\<lparr>isLoading := False\<rparr>, [Console_error ''Auth check failed:''])
      | Item token \<Rightarrow>
          ((if truthy (item_value token) then st\<lparr>isAuthenticated := True\<rparr> else st)
             \<lparr>isLoading := False\<rparr>, []))"

datatype navigator = Nothing_rendered | MainTabs_and_Consent | AuthStack

definition App_render :: "app \<Rightarrow> navigator" where
  "App_render st =
     (if isLoading st then Nothing_rendered
      else if isAuthenticated st then MainTabs_and_Consent else AuthStack)"

section \<open>VideoCallScreen: permissions, session creation, recording, upload\<close>

text \<open>
  The screen's state: the four \<^verbatim>\<open>useState\<close> cells, and whether
  \<^verbatim>\<open>cameraRef.current\<close> is set (it is \<^verbatim>\<open>null\<close> until the camera
  view is mounted).
\<close>

record vc_state =
  isRecording :: bool
  sessionId :: js_value
  hasPermissions :: bool
  participantUsername :: string
  cameraRef :: bool

definition VideoCallScreen_initial :: vc_state where
  "VideoCallScreen_initial =
     \<lparr>isRecording = False, sessionId = JNull, hasPermissions = False,
      participantUsername = [], cameraRef = False\<rparr>"

text \<open>
  Rendering: without permissions only the permission prompt is shown; with them the
  camera view is mounted, which sets \<^verbatim>\<open>cameraRef.current\<close>.
\<close>

definition VideoCallScreen_render :: "vc_state \<Rightarrow> vc_state" where
  "VideoCallScreen_render st = st\<lparr>cameraRef := hasPermissions st\<rparr>"

datatype platform = Android | Other_OS

text \<open>
  The outcome of \<^verbatim>\<open>PermissionsAndroid.requestMultiple\<close>: it rejects, or tells for
  camera, audio and storage whether each was granted.
\<close>

datatype permission_result = Request_failed | Grants bool bool bool

definition requestPermissions ::
  "platform \<Rightarrow> permission_result \<Rightarrow> vc_state \<Rightarrow> vc_state \<times> action list" where
  "requestPermissions os res st =
     (if os = Android then
        (case res of
           Request_failed \<Rightarrow> (st, [Console_warn])
         | Grants camera audio storage \<Rightarrow>
             if camera \<and> audio \<and> storage then (st\<lparr>hasPermissions := True\<rparr>, [])
             else (st, [Alert ''Permissions Required''
                          ''Camera and audio permissions are required for video calls.'' None]))
      else (st\<lparr>hasPermissions := True\<rparr>, []))"

text \<open>
  The body of the reply to session creation, as far as the handler reads it. Whatever else
  the backend sends stays in the record's extension and is never looked at.
\<close>

record create_data =
  session_id :: js_value
  detail :: "string option"

fun detail_or :: "string option \<Rightarrow> string \<Rightarrow> string" where
  "detail_or None dflt = dflt"
| "detail_or (Some d) dflt = (if d = [] then dflt else d)"

definition createSession ::
  "string \<Rightarrow> storage_read \<Rightarrow> ('a create_data_scheme) fetch_result \<Rightarrow> vc_state
     \<Rightarrow> vc_state \<times> action list" where
  "createSession participant r reply st =
     (case r of
        StorageError \<Rightarrow>
          (st, [Alert ''Error'' ''Network error'' None, Console_error ''Create session error:''])
      | Item token \<Rightarrow>
          (case reply of
             Fetch_failed \<Rightarrow>
               (st, [Fetch (Post_sessions_create (bearer token) participant),
                     Alert ''Error'' ''Network error'' None,
                     Console_error ''Create session error:''])
           | Fetched status None \<Rightarrow>
               (st, [Fetch (Post_sessions_create (bearer token) participant),
                     Alert ''Error'' ''Network error'' None,
                     Console_error ''Create session error:''])
           | Fetched_null status \<Rightarrow>
               (st, [Fetch (Post_sessions_create (bearer token) participant),
                     Alert ''Error'' ''Network error'' None,
                     Console_error ''Create session error:''])
           | Fetched status (Some data) \<Rightarrow>
               if ok status then
                 (st\<lparr>sessionId := session_id data\<rparr>,
                  [Fetch (Post_sessions_create (bearer token) participant),
                   Navigate ''Consent'' (session_id data) participant])
               else
                 (st, [Fetch (Post_sessions_create (bearer token) participant),
                       Alert ''Error'' (detail_or (detail data) ''Failed to create session'') None])))"

definition startRecording_options :: record_options where
  "startRecording_options =
     \<lparr>quality = ''720p'', videoBitrate = 1000000, audioBitrate = 128000, maxDuration = 1800\<rparr>"

definition uploadVideoForAnalysis ::
  "vc_state \<Rightarrow> string \<Rightarrow> storage_read \<Rightarrow> 'd fetch_result \<Rightarrow> action list" where
  "uploadVideoForAnalysis st videoUri r reply =
     (case r of
        StorageError \<Rightarrow> [Console_error ''Upload error:'', Alert ''Error'' ''Upload failed'' None]
      | Item token \<Rightarrow>
          Fetch (Post_analysis_upload (bearer token) (sessionId st) videoUri) #
          (case reply of
             Fetch_failed \<Rightarrow>
               [Console_error ''Upload error:'', Alert ''Error'' ''Upload failed'' None]
           | Fetched status _ \<Rightarrow>
               if ok status then [Alert ''Success'' ''Video uploaded for analysis'' None]
               else [Alert ''Error'' ''Failed to upload video'' None]
           | Fetched_null status \<Rightarrow>
               if ok status then [Alert ''Success'' ''Video uploaded for analysis'' None]
               else [Alert ''Error'' ''Failed to upload video'' None]))"

text \<open>\<^verbatim>\<open>recordAsync\<close> rejects, or resolves to the recording's uri.\<close>

datatype camera_result = Record_failed | Recorded string

text \<open>
  \<^verbatim>\<open>startRecording\<close> suspends at \<^verbatim>\<open>await recordAsync(options)\<close>.
  \<open>startRecording_begin\<close> is what it does before suspending, in the same turn as the
  press that called it; \<open>startRecording_resume\<close> is what it does once the camera has
  settled; \<open>startRecording\<close> is the whole call.
\<close>

definition startRecording_begin :: "vc_state \<Rightarrow> action list" where
  "startRecording_begin st =
     (if \<not> cameraRef st \<or> \<not> truthy (sessionId st) then []
      else [RecordAsync startRecording_options])"

definition startRecording_resume ::
  "vc_state \<Rightarrow> camera_result \<Rightarrow> storage_read \<Rightarrow> 'd fetch_result \<Rightarrow> action list" where
  "startRecording_resume st cam r reply =
     (case cam of
        Record_failed \<Rightarrow>
          [Console_error ''Recording error:'', Alert ''Error'' ''Failed to start recording'' None]
      | Recorded uri \<Rightarrow>
          Console_log (''Recording saved: '' @ uri) # uploadVideoForAnalysis st uri r reply)"

definition startRecording ::
  "vc_state \<Rightarrow> camera_result \<Rightarrow> storage_read \<Rightarrow> 'd fetch_result \<Rightarrow> action list" where
  "startRecording st cam r reply =
     (if \<not> cameraRef st \<or> \<not> truthy (sessionId st) then []
      else RecordAsync startRecording_options # startRecording_resume st cam r reply)"

definition stopRecording :: "vc_state \<Rightarrow> vc_state \<times> action list" where
  "stopRecording st =
     (if cameraRef st then (st\<lparr>isRecording := False\<rparr>, [StopRecording]) else (st, []))"

definition toggleRecording :: "vc_state \<Rightarrow> vc_state \<times> action list" where
  "toggleRecording st =
     (if isRecording st then stopRecording st
      else (st\<lparr>isRecording := True\<rparr>, startRecording_begin st))"

text \<open>
  The camera is a library outside the repository; how long a recording lasts is its
  decision. A camera is taken as a parameter: from the options of
  \<^verbatim>\<open>recordAsync\<close> and the time (in ms after the start) at which
  \<^verbatim>\<open>stopRecording\<close> is called on it, if ever, it tells the time at which the
  recording ends (\<open>None\<close>: it goes on).
\<close>

type_synonym camera = "record_options \<Rightarrow> nat option \<Rightarrow> nat option"

definition camera_honouring_maxDuration :: camera where
  "camera_honouring_maxDuration opts stop =
     (case stop of
        None \<Rightarrow> Some (maxDuration opts * 1000)
      | Some t \<Rightarrow> Some (min t (maxDuration opts * 1000)))"

definition camera_until_stopped :: camera where
  "camera_until_stopped opts stop = stop"

fun recordAsync_options :: "action list \<Rightarrow> record_options option" where
  "recordAsync_options [] = None"
| "recordAsync_options (RecordAsync opts # _) = Some opts"
| "recordAsync_options (_ # acts) = recordAsync_options acts"

datatype capture_end = Not_started | Still_recording | Finalized nat

text \<open>
  Besides a press, the only way for code of the screen to run during a recording is a
  timer set with \<^verbatim>\<open>setTimeout\<close>. What the callback of a timer does when it
  fires is the parameter \<open>fire\<close> of a run. \<open>stop_timers\<close> reads, from the effects
  of a handler, the delays of the timers whose callback calls
  \<^verbatim>\<open>stopRecording\<close>.
\<close>

fun stop_timers :: "(callback \<Rightarrow> action list) \<Rightarrow> action list \<Rightarrow> nat list" where
  "stop_timers fire [] = []"
| "stop_timers fire (SetTimeout cb ms # acts) =
     (if StopRecording \<in> set (fire cb) then ms # stop_timers fire acts
      else stop_timers fire acts)"
| "stop_timers fire (_ # acts) = stop_timers fire acts"

fun earliest :: "nat list \<Rightarrow> nat option" where
  "earliest [] = None"
| "earliest (t # ts) = (case earliest ts of None \<Rightarrow> Some t | Some u \<Rightarrow> Some (min t u))"

text \<open>
  One recording run: the record button is pressed; a second press, if there is one, comes
  \<open>t\<close> ms later. The camera is stopped at the earliest moment at which the screen
  calls \<^verbatim>\<open>stopRecording\<close>: in a timer set by the first press, at the second
  press, or in a timer set by the second press.
\<close>

definition capture_run ::
  "camera \<Rightarrow> (callback \<Rightarrow> action list) \<Rightarrow> vc_state \<Rightarrow> nat option \<Rightarrow> capture_end" where
  "capture_run cam fire st press =
     (case recordAsync_options (snd (toggleRecording st)) of
        None \<Rightarrow> Not_started
      | Some opts \<Rightarrow>
          (case cam opts
                  (earliest
                     (stop_timers fire (snd (toggleRecording st)) @
                      (case press of
                         None \<Rightarrow> []
                       | Some t \<Rightarrow>
                           (if StopRecording
                                 \<in> set (snd (toggleRecording (fst (toggleRecording st))))
                            then [t] else []) @
                           map (\<lambda>ms. t + ms)
                             (stop_timers fire
                                (snd (toggleRecording (fst (toggleRecording st)))))))) of
             None \<Rightarrow> Still_recording
           | Some e \<Rightarrow> Finalized e))"

section \<open>ConsentScreen: consent, status polling, session start\<close>

text \<open>
  The screen receives the session id as a route parameter. Its one state cell,
  \<^verbatim>\<open>consentGiven\<close>, is never written or read by a handler.
\<close>

definition submitConsent ::
  "js_value \<Rightarrow> bool \<Rightarrow> storage_read \<Rightarrow> 'd fetch_result \<Rightarrow> action list" where
  "submitConsent sid consent r reply =
     (case r of
        StorageError \<Rightarrow> [Alert ''Error'' ''Network error'' None, Console_error ''Consent error:'']
      | Item token \<Rightarrow>
          Fetch (Post_sessions_consent (bearer token) sid consent) #
          (case reply of
             Fetch_failed \<Rightarrow>
               [Alert ''Error'' ''Network error'' None, Console_error ''Consent error:'']
           | Fetched status _ \<Rightarrow>
               if ok status then
                 (if consent then
                    [Alert ''Consent Recorded'' ''Waiting for other participant to consent...''
                       (Some Cb_checkSessionStatus)]
                  else
                    [Alert ''Session Cancelled'' ''Recording session has been cancelled.''
                       (Some Cb_goBack)])
               else [Alert ''Error'' ''Failed to record consent'' None]
           | Fetched_null status \<Rightarrow>
               if ok status then
                 (if consent then
                    [Alert ''Consent Recorded'' ''Waiting for other participant to consent...''
                       (Some Cb_checkSessionStatus)]
                  else
                    [Alert ''Session Cancelled'' ''Recording session has been cancelled.''
                       (Some Cb_goBack)])
               else [Alert ''Error'' ''Failed to record consent'' None]))"

definition startSession ::
  "js_value \<Rightarrow> storage_read \<Rightarrow> 'd fetch_result \<Rightarrow> action list" where
  "startSession sid r reply =
     (case r of
        StorageError \<Rightarrow> [Console_error ''Start session error:'']
      | Item token \<Rightarrow>
          Fetch (Post_sessions_start (bearer token) sid) #
          (case reply of
             Fetch_failed \<Rightarrow> [Console_error ''Start session error:'']
           | Fetched status _ \<Rightarrow>
               if ok status then
                 [Alert ''Session Started''
                    ''Both parties have consented. Recording can now begin.'' (Some Cb_goBack)]
               else []
           | Fetched_null status \<Rightarrow>
               if ok status then
                 [Alert ''Session Started''
                    ''Both parties have consented. Recording can now begin.'' (Some Cb_goBack)]
               else []))"

text \<open>
  The body of a status reply, as far as the handler reads it: the field
  \<^verbatim>\<open>both_consented\<close>. Other fields stay in the record's extension.
\<close>

record status_data =
  both_consented :: js_value

text \<open>
  \<^verbatim>\<open>checkSessionStatus\<close> suspends at the status request.
  \<open>checkSessionStatus_begin\<close> runs up to the request being sent,
  \<open>checkSessionStatus_resume\<close> from the request settling to the end (the last two
  arguments are what the nested \<^verbatim>\<open>startSession\<close> awaits), and
  \<open>checkSessionStatus\<close> is the whole call. The body is parsed before the test
  \<^verbatim>\<open>response.ok && data.both_consented\<close>, so a body that is not JSON throws
  whatever the status; a \<^verbatim>\<open>null\<close> body throws only when the status is ok,
  since \<^verbatim>\<open>&&\<close> does not read the field otherwise. Every throw ends in the
  \<^verbatim>\<open>catch\<close>, which writes to the console and sets no timer.
\<close>

definition checkSessionStatus_begin :: "js_value \<Rightarrow> storage_read \<Rightarrow> action list" where
  "checkSessionStatus_begin sid r =
     (case r of
        StorageError \<Rightarrow> [Console_error ''Status check error:'']
      | Item token \<Rightarrow> [Fetch (Get_sessions_status (bearer token) sid)])"

definition checkSessionStatus_resume ::
  "js_value \<Rightarrow> ('a status_data_scheme) fetch_result \<Rightarrow> storage_read \<Rightarrow> 'd fetch_result
     \<Rightarrow> action list" where
  "checkSessionStatus_resume sid reply r2 reply2 =
     (case reply of
        Fetch_failed \<Rightarrow> [Console_error ''Status check error:'']
      | Fetched status None \<Rightarrow> [Console_error ''Status check error:'']
      | Fetched status (Some data) \<Rightarrow>
          if ok status \<and> truthy (both_consented data) then startSession sid r2 reply2
          else [SetTimeout Cb_checkSessionStatus 3000]
      | Fetched_null status \<Rightarrow>
          if ok status then [Console_error ''Status check error:'']
          else [SetTimeout Cb_checkSessionStatus 3000])"

definition checkSessionStatus ::
  "js_value \<Rightarrow> storage_read \<Rightarrow> ('a status_data_scheme) fetch_result \<Rightarrow> storage_read
     \<Rightarrow> 'd fetch_result \<Rightarrow> action list" where
  "checkSessionStatus sid r reply r2 reply2 =
     (case r of
        StorageError \<Rightarrow> [Console_error ''Status check error:'']
      | Item token \<Rightarrow>
          Fetch (Get_sessions_status (bearer token) sid) #
          checkSessionStatus_resume sid reply r2 reply2)"

subsection \<open>The backend's session states\<close>

text \<open>
  Modelled from the spec: the backend is not part of the repository; its session states
  (section 3) and the \<^verbatim>\<open>state\<close> field its replies carry (section 6) are taken
  from the spec. No handler reads the field.
\<close>

datatype session_state =
  Created | AwaitingConsent | BothConsented | Started | Cancelled | Expired

record create_reply = create_data +
  created_state :: session_state

record status_reply = status_data +
  state :: session_state

subsection \<open>The consent screen as a transition system\<close>

text \<open>
  The polling loop is not a loop of the language: \<^verbatim>\<open>checkSessionStatus\<close>
  re-arms itself with \<^verbatim>\<open>setTimeout(checkSessionStatus, 3000)\<close>, and it is first
  called by OK on the alert of an accepted consent. The state of the screen's pending work
  is the number of such alerts shown and not yet acknowledged, the number of status
  requests sent and not yet settled, the number of timers set and not yet fired, and the
  effects so far. The events are: a consent button is pressed (the buttons are always
  shown, and \<^verbatim>\<open>consentGiven\<close> is never written, so nothing disables them);
  OK is pressed on an alert of an accepted consent, which calls
  \<^verbatim>\<open>checkSessionStatus\<close>; a timer fires, which calls it too; a status request
  settles, which resumes the call that sent it. The timer's handle is dropped, so nothing
  can clear a timer.
\<close>

record poller =
  alerts :: nat
  in_flight :: nat
  timers :: nat
  emitted :: "action list"

fun is_poll_alert :: "action \<Rightarrow> bool" where
  "is_poll_alert (Alert _ _ (Some Cb_checkSessionStatus)) = True"
| "is_poll_alert _ = False"

fun is_status_request :: "action \<Rightarrow> bool" where
  "is_status_request (Fetch (Get_sessions_status _ _)) = True"
| "is_status_request _ = False"

fun is_poll_timer :: "action \<Rightarrow> bool" where
  "is_poll_timer (SetTimeout Cb_checkSessionStatus _) = True"
| "is_poll_timer _ = False"

definition perform :: "action list \<Rightarrow> poller \<Rightarrow> poller" where
  "perform acts p =
     p\<lparr>alerts := alerts p + length (filter is_poll_alert acts),
       in_flight := in_flight p + length (filter is_status_request acts),
       timers := timers p + length (filter is_poll_timer acts),
       emitted := emitted p @ acts\<rparr>"

datatype poll_event =
    Consent_pressed bool storage_read "session_state fetch_result"
  | Ok_pressed storage_read
  | Timer_fires storage_read
  | Status_settles "status_reply fetch_result" storage_read "unit fetch_result"

fun poll_step :: "js_value \<Rightarrow> poller \<Rightarrow> poll_event \<Rightarrow> poller option" where
  "poll_step sid p (Consent_pressed consent r reply) =
     Some (perform (submitConsent sid consent r reply) p)"
| "poll_step sid p (Ok_pressed r) =
     (if alerts p = 0 then None
      else Some (perform (checkSessionStatus_begin sid r) (p\<lparr>alerts := alerts p - 1\<rparr>)))"
| "poll_step sid p (Timer_fires r) =
     (if timers p = 0 then None
      else Some (perform (checkSessionStatus_begin sid r) (p\<lparr>timers := timers p - 1\<rparr>)))"
| "poll_step sid p (Status_settles reply r2 reply2) =
     (if in_flight p = 0 then None
      else Some (perform (checkSessionStatus_resume sid reply r2 reply2)
                   (p\<lparr>in_flight := in_flight p - 1\<rparr>)))"

fun poll_run :: "js_value \<Rightarrow> poller \<Rightarrow> poll_event list \<Rightarrow> poller option" where
  "poll_run sid p [] = Some p"
| "poll_run sid p (e # es) =
     (case poll_step sid p e of None \<Rightarrow> None | Some p' \<Rightarrow> poll_run sid p' es)"

text \<open>The screen as it opens, with nothing pending.\<close>

definition ConsentScreen_idle :: poller where
  "ConsentScreen_idle = \<lparr>alerts = 0, in_flight = 0, timers = 0, emitted = []\<rparr>"

text \<open>
  The screen just after a first loop was started: OK was pressed on the alert of an
  accepted consent, which called \<^verbatim>\<open>checkSessionStatus\<close>.
\<close>

definition poll_start :: "js_value \<Rightarrow> storage_read \<Rightarrow> poller" where
  "poll_start sid r = perform (checkSessionStatus_begin sid r) ConsentScreen_idle"

fun is_ok_press :: "poll_event \<Rightarrow> bool" where
  "is_ok_press (Ok_pressed _) = True"
| "is_ok_press _ = False"

subsection \<open>The backend's consent handling\<close>

text \<open>
  Modelled from the spec: the backend that receives the consent submissions is not in the
  repository, only its caller \<^verbatim>\<open>submitConsent\<close> is. Its handling of a submission
  is taken from section 4.1 of the spec and the data of section 3. A session holds one
  consent record per participant, each Pending, Granted or Declined. \<open>evaluate\<close>: if
  any record is Declined the session is Cancelled; if both are Granted it is
  BothConsented; otherwise it is AwaitingConsent. A submission overwrites the sender's
  record and re-evaluates the session while the session is still awaiting consent (a
  session just created awaits its first consent: the initiator's consent takes it from
  Created to AwaitingConsent); once BothConsented or Cancelled, and in every other state,
  a submission fails with StaleSession and changes nothing. The reply to an accepted
  submission carries the updated state (section 6). The spec does not fix the status
  codes: \<open>accepted\<close> is the status of the reply to a submission the backend accepts,
  \<open>refused\<close> of the reply to one that fails.
\<close>

datatype decision = Pending | Granted | Declined

datatype party = Initiator | Participant

datatype backend_error = StaleSession

record backend_session =
  session_state_of :: session_state
  initiator_record :: decision
  participant_record :: decision

definition created_session :: backend_session where
  "created_session =
     \<lparr>session_state_of = Created, initiator_record = Pending, participant_record = Pending\<rparr>"

definition evaluate :: "decision \<Rightarrow> decision \<Rightarrow> session_state" where
  "evaluate a b =
     (if a = Declined \<or> b = Declined then Cancelled
      else if a = Granted \<and> b = Granted then BothConsented
      else AwaitingConsent)"

fun record_decision :: "party \<Rightarrow> decision \<Rightarrow> backend_session \<Rightarrow> backend_session" where
  "record_decision Initiator d s = s\<lparr>initiator_record := d\<rparr>"
| "record_decision Participant d s = s\<lparr>participant_record := d\<rparr>"

definition backend_submitConsent ::
  "backend_session \<Rightarrow> party \<Rightarrow> decision \<Rightarrow> backend_error + backend_session" where
  "backend_submitConsent s who d =
     (if session_state_of s = Created \<or> session_state_of s = AwaitingConsent then
        Inr ((record_decision who d s)
               \<lparr>session_state_of :=
                  evaluate (initiator_record (record_decision who d s))
                    (participant_record (record_decision who d s))\<rparr>)
      else Inl StaleSession)"

fun session_after :: "backend_session \<Rightarrow> backend_error + backend_session \<Rightarrow> backend_session" where
  "session_after s (Inl e) = s"
| "session_after s (Inr t) = t"

fun backend_reply ::
  "nat \<Rightarrow> nat \<Rightarrow> backend_error + backend_session \<Rightarrow> session_state fetch_result" where
  "backend_reply accepted refused (Inl e) = Fetched refused None"
| "backend_reply accepted refused (Inr t) = Fetched accepted (Some (session_state_of t))"

text \<open>
  The consent buttons of the two participants' devices against that backend. A press
  calls \<^verbatim>\<open>submitConsent\<close> of the source with true or false, sent as
  \<^verbatim>\<open>consent_given\<close>; the backend takes it as Granted or Declined for the
  participant who pressed, and its reply is what \<^verbatim>\<open>submitConsent\<close> awaits.
  \<open>refused_presses\<close> is what the presses do on the device when every one of them is
  refused: each sends its request and raises the alert of a failed submission.
\<close>

definition decision_of :: "bool \<Rightarrow> decision" where
  "decision_of consent = (if consent then Granted else Declined)"

fun consent_session ::
  "nat \<Rightarrow> nat \<Rightarrow> js_value \<Rightarrow> backend_session \<Rightarrow> (party \<times> bool \<times> string option) list
     \<Rightarrow> backend_session \<times> action list" where
  "consent_session accepted refused sid s [] = (s, [])"
| "consent_session accepted refused sid s ((who, consent, tok) # later) =
     (case consent_session accepted refused sid
             (session_after s (backend_submitConsent s who (decision_of consent))) later of
        (s', acts) \<Rightarrow>
          (s', submitConsent sid consent (Item tok)
                 (backend_reply accepted refused
                    (backend_submitConsent s who (decision_of consent))) @ acts))"

fun refused_presses :: "js_value \<Rightarrow> (party \<times> bool \<times> string option) list \<Rightarrow> action list" where
  "refused_presses sid [] = []"
| "refused_presses sid ((who, consent, tok) # later) =
     [Fetch (Post_sessions_consent (bearer tok) sid consent),
      Alert ''Error'' ''Failed to record consent'' None] @ refused_presses sid later"

section \<open>Observations on effect lists, and the scenarios the properties use\<close>

fun is_fetch :: "action \<Rightarrow> bool" where
  "is_fetch (Fetch _) = True"
| "is_fetch _ = False"

fun is_alert :: "action \<Rightarrow> bool" where
  "is_alert (Alert _ _ _) = True"
| "is_alert _ = False"

fun is_console :: "action \<Rightarrow> bool" where
  "is_console (Console_error _) = True"
| "is_console (Console_log _) = True"
| "is_console Console_warn = True"
| "is_console _ = False"

fun is_start_request :: "action \<Rightarrow> bool" where
  "is_start_request (Fetch (Post_sessions_start _ _)) = True"
| "is_start_request _ = False"

fun is_timeout :: "action \<Rightarrow> bool" where
  "is_timeout (SetTimeout _ _) = True"
| "is_timeout _ = False"

text \<open>The video screen once the permissions are granted and the camera view is mounted.\<close>

definition screen_with_camera :: vc_state where
  "screen_with_camera =
     VideoCallScreen_render
       (fst (requestPermissions Android (Grants True True True) VideoCallScreen_initial))"

text \<open>The same screen after a session was created; the backend reports it as created.\<close>

definition screen_with_session :: vc_state where
  "screen_with_session =
     fst (createSession ''bob'' (Item (Some ''tok''))
            (Fetched 200
               (Some \<lparr>session_id = JStr ''s1'', detail = None, created_state = Created\<rparr>))
            screen_with_camera)"

text \<open>
  One round of the polling loop: the status request in flight is answered by \<open>reply\<close>,
  and the timer then fires.
\<close>

definition unanswered_round ::
  "status_reply fetch_result \<Rightarrow> string option \<Rightarrow> poll_event list" where
  "unanswered_round reply tok =
     [Status_settles reply StorageError Fetch_failed, Timer_fires (Item tok)]"

definition outstanding :: "poller \<Rightarrow> nat" where
  "outstanding p = in_flight p + timers p"

section \<open>Auxiliary facts\<close>

lemma screen_with_camera_eq:
  "screen_with_camera =
     \<lparr>isRecording = False, sessionId = JNull, hasPermissions = True,
      participantUsername = [], cameraRef = True\<rparr>"
  by (simp add: screen_with_camera_def VideoCallScreen_render_def requestPermissions_def
      VideoCallScreen_initial_def)

lemma screen_with_session_eq:
  "screen_with_session =
     \<lparr>isRecording = False, sessionId = JStr ''s1'', hasPermissions = True,
      participantUsername = [], cameraRef = True\<rparr>"
  by (simp add: screen_with_session_def screen_with_camera_eq createSession_def ok_def)

lemma toggle_starts:
  "\<not> isRecording st \<Longrightarrow> cameraRef st \<Longrightarrow> truthy (sessionId st) \<Longrightarrow>
   toggleRecording st = (st\<lparr>isRecording := True\<rparr>, [RecordAsync startRecording_options])"
  by (simp add: toggleRecording_def startRecording_begin_def)

lemma toggle_stops:
  "isRecording st \<Longrightarrow> cameraRef st \<Longrightarrow>
   toggleRecording st = (st\<lparr>isRecording := False\<rparr>, [StopRecording])"
  by (simp add: toggleRecording_def stopRecording_def)

lemma upload_effects:
  "filter is_timeout (uploadVideoForAnalysis st uri r reply) = []
   \<and> StopRecording \<notin> set (uploadVideoForAnalysis st uri r reply)"
  by (simp add: uploadVideoForAnalysis_def split: storage_read.split fetch_result.split)

lemma startSession_counts:
  "filter is_status_request (startSession sid r reply) = []
   \<and> filter is_poll_timer (startSession sid r reply) = []"
  by (simp add: startSession_def split: storage_read.split fetch_result.split)

lemma submitConsent_counts:
  "filter is_status_request (submitConsent sid consent r reply) = []
   \<and> filter is_poll_timer (submitConsent sid consent r reply) = []"
  by (simp add: submitConsent_def split: storage_read.split fetch_result.split)

lemma begin_counts:
  "length (filter is_status_request (checkSessionStatus_begin sid r)) \<le> 1
   \<and> filter is_poll_timer (checkSessionStatus_begin sid r) = []"
  by (simp add: checkSessionStatus_begin_def split: storage_read.split)

lemma resume_counts:
  "filter is_status_request (checkSessionStatus_resume sid reply r2 reply2) = []
   \<and> length (filter is_poll_timer (checkSessionStatus_resume sid reply r2 reply2)) \<le> 1"
  by (simp add: checkSessionStatus_resume_def startSession_counts
      split: fetch_result.split option.split)

text \<open>
  Only a press of OK, which starts a loop, raises the number of requests in flight plus
  timers pending, and by one at most.
\<close>

lemma poll_step_outstanding:
  assumes "poll_step sid p e = Some p'"
  shows "outstanding p' \<le> outstanding p + (if is_ok_press e then 1 else 0)"
proof (cases e)
  case (Consent_pressed consent r reply)
  with assms have p': "p' = perform (submitConsent sid consent r reply) p"
    by simp
  from submitConsent_counts [of sid consent r reply] Consent_pressed show ?thesis
    by (simp add: p' perform_def outstanding_def)
next
  case (Ok_pressed r)
  with assms have p': "p' = perform (checkSessionStatus_begin sid r) (p\<lparr>alerts := alerts p - 1\<rparr>)"
    by (auto split: if_splits)
  from begin_counts [of sid r] Ok_pressed show ?thesis
    by (simp add: p' perform_def outstanding_def)
next
  case (Timer_fires r)
  with assms have t: "timers p \<noteq> 0"
    and p': "p' = perform (checkSessionStatus_begin sid r) (p\<lparr>timers := timers p - 1\<rparr>)"
    by (auto split: if_splits)
  from begin_counts [of sid r]
  have c: "length (filter is_status_request (checkSessionStatus_begin sid r)) \<le> 1"
    and z: "filter is_poll_timer (checkSessionStatus_begin sid r) = []"
    by simp_all
  have "outstanding p' =
          in_flight p + length (filter is_status_request (checkSessionStatus_begin sid r))
            + (timers p - 1)"
    by (simp add: p' perform_def outstanding_def z)
  with c t Timer_fires show ?thesis
    unfolding outstanding_def by simp
next
  case (Status_settles reply r2 reply2)
  with assms have t: "in_flight p \<noteq> 0"
    and p': "p' = perform (checkSessionStatus_resume sid reply r2 reply2)
                    (p\<lparr>in_flight := in_flight p - 1\<rparr>)"
    by (auto split: if_splits)
  from resume_counts [of sid reply r2 reply2]
  have c: "length (filter is_poll_timer (checkSessionStatus_resume sid reply r2 reply2)) \<le> 1"
    and z: "filter is_status_request (checkSessionStatus_resume sid reply r2 reply2) = []"
    by simp_all
  have "outstanding p' =
          (in_flight p - 1) + timers p
            + length (filter is_poll_timer (checkSessionStatus_resume sid reply r2 reply2))"
    by (simp add: p' perform_def outstanding_def z)
  with c t Status_settles show ?thesis
    unfolding outstanding_def by simp
qed

lemma poll_run_outstanding:
  "poll_run sid p es = Some p' \<Longrightarrow>
   outstanding p' \<le> outstanding p + length (filter is_ok_press es)"
proof (induction es arbitrary: p)
  case Nil
  then show ?case by simp
next
  case (Cons e es)
  then obtain q where q: "poll_step sid p e = Some q" and run: "poll_run sid q es = Some p'"
    by (auto split: option.splits)
  from Cons.IH [OF run] poll_step_outstanding [OF q] show ?case
    by (simp split: if_splits)
qed

lemma poll_start_ok:
  "poll_start sid (Item tok) =
     \<lparr>alerts = 0, in_flight = 1, timers = 0,
      emitted = [Fetch (Get_sessions_status (bearer tok) sid)]\<rparr>"
  by (simp add: poll_start_def ConsentScreen_idle_def perform_def checkSessionStatus_begin_def)

lemma unanswered_round_run:
  assumes "checkSessionStatus_resume sid reply StorageError (Fetch_failed :: unit fetch_result)
             = [SetTimeout Cb_checkSessionStatus 3000]"
  shows "poll_run sid \<lparr>alerts = 0, in_flight = 1, timers = 0, emitted = em\<rparr>
           (unanswered_round reply tok @ es) =
         poll_run sid
           \<lparr>alerts = 0, in_flight = 1, timers = 0,
            emitted = em @ [SetTimeout Cb_checkSessionStatus 3000,
                            Fetch (Get_sessions_status (bearer tok) sid)]\<rparr> es"
  by (simp add: unanswered_round_def assms checkSessionStatus_begin_def perform_def)

lemma unanswered_rounds_run:
  assumes "checkSessionStatus_resume sid reply StorageError (Fetch_failed :: unit fetch_result)
             = [SetTimeout Cb_checkSessionStatus 3000]"
  shows "poll_run sid \<lparr>alerts = 0, in_flight = 1, timers = 0, emitted = em\<rparr>
           (concat (replicate n (unanswered_round reply tok))) =
         Some \<lparr>alerts = 0, in_flight = 1, timers = 0,
               emitted = em @
                 concat (replicate n [SetTimeout Cb_checkSessionStatus 3000,
                                      Fetch (Get_sessions_status (bearer tok) sid)])\<rparr>"
proof (induction n arbitrary: em)
  case 0
  show ?case by simp
next
  case (Suc n)
  have "poll_run sid \<lparr>alerts = 0, in_flight = 1, timers = 0, emitted = em\<rparr>
          (concat (replicate (Suc n) (unanswered_round reply tok)))
        = poll_run sid
           \<lparr>alerts = 0, in_flight = 1, timers = 0,
            emitted = em @ [SetTimeout Cb_checkSessionStatus 3000,
                            Fetch (Get_sessions_status (bearer tok) sid)]\<rparr>
           (concat (replicate n (unanswered_round reply tok)))"
    using unanswered_round_run [OF assms] by simp
  also have "\<dots> = Some \<lparr>alerts = 0, in_flight = 1, timers = 0,
               emitted = (em @ [SetTimeout Cb_checkSessionStatus 3000,
                                Fetch (Get_sessions_status (bearer tok) sid)]) @
                 concat (replicate n [SetTimeout Cb_checkSessionStatus 3000,
                                      Fetch (Get_sessions_status (bearer tok) sid)])\<rparr>"
    by (rule Suc.IH)
  finally show ?case by simp
qed

text \<open>A cancelled session refuses every submission and stays as it is.\<close>

lemma cancelled_refuses:
  "session_state_of t = Cancelled \<Longrightarrow> backend_submitConsent t who d = Inl StaleSession"
  by (simp add: backend_submitConsent_def)

lemma consent_session_cancelled:
  "session_state_of t = Cancelled \<Longrightarrow> \<not> ok refused \<Longrightarrow>
   consent_session accepted refused sid t later = (t, refused_presses sid later)"
proof (induction later)
  case Nil
  show ?case by simp
next
  case (Cons press later)
  obtain who consent tok where press: "press = (who, consent, tok)"
    by (cases press)
  from Cons show ?case
    by (simp add: press cancelled_refuses submitConsent_def)
qed

section \<open>Capture\<close>

subsection \<open>What gates the start of a recording\<close>

text \<open>
  C1 says that capture never starts while the session is not started, and that a start
  attempted before consent is complete fails with ConsentNotComplete. The consent screen
  says the same to the user: both participants must consent before the session can begin,
  and recording can begin once both have. The code does not hold to it. On this run a
  session is created, which opens the consent screen; the user declines, the backend
  accepts the decline (the session is now cancelled), and OK on the alert goes back to the
  video screen; there the record button is pressed. The guard of
  \<^verbatim>\<open>startRecording\<close> tests the session id, which is set since the creation, so
  the press calls \<^verbatim>\<open>recordAsync\<close> and raises nothing, in a session that was
  never started.
\<close>

theorem C1_records_in_a_session_never_started:
  "createSession ''bob'' (Item (Some ''tok''))
     (Fetched 200 (Some \<lparr>session_id = JStr ''s1'', detail = None, created_state = Created\<rparr>))
     screen_with_camera
   = (screen_with_camera\<lparr>sessionId := JStr ''s1''\<rparr>,
      [Fetch (Post_sessions_create ''Bearer tok'' ''bob''),
       Navigate ''Consent'' (JStr ''s1'') ''bob''])
   \<and> submitConsent (JStr ''s1'') False (Item (Some ''tok'')) (Fetched 200 (Some Cancelled))
   = [Fetch (Post_sessions_consent ''Bearer tok'' (JStr ''s1'') False),
      Alert ''Session Cancelled'' ''Recording session has been cancelled.'' (Some Cb_goBack)]
   \<and> toggleRecording (screen_with_camera\<lparr>sessionId := JStr ''s1''\<rparr>)
   = (screen_with_camera\<lparr>sessionId := JStr ''s1'', isRecording := True\<rparr>,
      [RecordAsync startRecording_options])"
  by (simp add: screen_with_camera_eq createSession_def ok_def submitConsent_def
      toggleRecording_def startRecording_begin_def)

subsection \<open>The maximum duration of a recording\<close>

text \<open>
  C2 says that the screen itself stops a recording at 1800000 ms. It fails with a camera
  that records until it is told to stop: the record button is pressed once, on a screen
  with a camera and a session, and no second press follows. The press sets no timer, so
  even if the callback of every timer called \<^verbatim>\<open>stopRecording\<close>, the screen
  never calls it: the recording is never finalized, in particular not at 1800000 ms.
\<close>

theorem C2_no_stop_from_the_screen:
  "capture_run camera_until_stopped (\<lambda>cb. [StopRecording]) screen_with_session None
     = Still_recording
   \<and> capture_run camera_until_stopped (\<lambda>cb. [StopRecording]) screen_with_session None
     \<noteq> Finalized 1800000"
  by (simp add: capture_run_def camera_until_stopped_def screen_with_session_eq toggle_starts)

text \<open>
  C2, amended: the screen sets no timer of its own: no handler of it calls
  \<^verbatim>\<open>setTimeout\<close>. It calls \<^verbatim>\<open>stopRecording\<close> only at a press of the
  record button made while the button shows a recording (and the camera is mounted).
  \<^verbatim>\<open>startRecording\<close> hands the ceiling to the camera, as the option
  \<^verbatim>\<open>maxDuration\<close> = 1800 (seconds) of \<^verbatim>\<open>recordAsync\<close>. So a
  recording, which starts at a press made while the button shows none and a camera and a
  session id are present, ends when the camera ends it, given these options and the time
  of the second press, if there is one, whatever the callbacks of timers would do: with a
  camera that honours \<^verbatim>\<open>maxDuration\<close> a run without a second press is
  finalized at 1800000 ms; with a camera that does not, it is never finalized.
\<close>

theorem C2_ceiling_is_the_cameras:
  "filter is_timeout (snd (requestPermissions os grants st)) = []
   \<and> filter is_timeout (snd (createSession u r create_reply st)) = []
   \<and> filter is_timeout (snd (toggleRecording st)) = []
   \<and> filter is_timeout (snd (stopRecording st)) = []
   \<and> filter is_timeout (startRecording st result r (reply :: 'd fetch_result)) = []
   \<and> (StopRecording \<in> set (snd (toggleRecording st))) = (isRecording st \<and> cameraRef st)
   \<and> StopRecording \<notin> set (startRecording st result r reply)
   \<and> StopRecording \<notin> set (snd (createSession u r create_reply st))
   \<and> StopRecording \<notin> set (snd (requestPermissions os grants st))
   \<and> recordAsync_options (snd (toggleRecording st))
       = (if \<not> isRecording st \<and> cameraRef st \<and> truthy (sessionId st)
          then Some startRecording_options else None)
   \<and> maxDuration startRecording_options = 1800
   \<and> capture_run cam fire st press
       = (if \<not> isRecording st \<and> cameraRef st \<and> truthy (sessionId st) then
            (case cam startRecording_options press of
               None \<Rightarrow> Still_recording
             | Some e \<Rightarrow> Finalized e)
          else Not_started)
   \<and> (\<not> isRecording st \<and> cameraRef st \<and> truthy (sessionId st) \<longrightarrow>
        capture_run camera_honouring_maxDuration fire st None = Finalized 1800000
        \<and> capture_run camera_until_stopped fire st None = Still_recording)"
proof -
  have perm: "filter is_timeout (snd (requestPermissions os grants st)) = []
              \<and> StopRecording \<notin> set (snd (requestPermissions os grants st))"
    by (simp add: requestPermissions_def split: permission_result.split)
  have create: "filter is_timeout (snd (createSession u r create_reply st)) = []
                \<and> StopRecording \<notin> set (snd (createSession u r create_reply st))"
    by (simp add: createSession_def
        split: storage_read.split fetch_result.split option.split)
  have stop: "snd (stopRecording st) = (if cameraRef st then [StopRecording] else [])"
    by (simp add: stopRecording_def)
  have toggle: "snd (toggleRecording st)
      = (if isRecording st then (if cameraRef st then [StopRecording] else [])
         else if cameraRef st \<and> truthy (sessionId st) then [RecordAsync startRecording_options]
         else [])"
    by (simp add: toggleRecording_def stopRecording_def startRecording_begin_def)
  have start: "filter is_timeout (startRecording st result r reply) = []
               \<and> StopRecording \<notin> set (startRecording st result r reply)"
    using upload_effects [of st _ r reply]
    by (simp add: startRecording_def startRecording_resume_def split: camera_result.split)
  have opts: "maxDuration startRecording_options = 1800"
    by (simp add: startRecording_options_def)
  have run: "capture_run c f st p
       = (if \<not> isRecording st \<and> cameraRef st \<and> truthy (sessionId st) then
            (case c startRecording_options p of
               None \<Rightarrow> Still_recording
             | Some e \<Rightarrow> Finalized e)
          else Not_started)" for c f p
  proof (cases "\<not> isRecording st \<and> cameraRef st \<and> truthy (sessionId st)")
    case True
    then have t1: "toggleRecording st
                     = (st\<lparr>isRecording := True\<rparr>, [RecordAsync startRecording_options])"
      by (simp add: toggle_starts)
    from True have t2: "toggleRecording (st\<lparr>isRecording := True\<rparr>)
                          = (st\<lparr>isRecording := False\<rparr>, [StopRecording])"
      by (simp add: toggle_stops)
    from True show ?thesis
      by (cases p) (simp_all add: capture_run_def t1 t2)
  next
    case False
    with toggle have "recordAsync_options (snd (toggleRecording st)) = None"
      by auto
    with False show ?thesis
      by (auto simp add: capture_run_def)
  qed
  have hon: "capture_run camera_honouring_maxDuration fire st None = Finalized 1800000"
    if "\<not> isRecording st \<and> cameraRef st \<and> truthy (sessionId st)"
    using that by (simp add: run camera_honouring_maxDuration_def opts)
  have unt: "capture_run camera_until_stopped fire st None = Still_recording"
    if "\<not> isRecording st \<and> cameraRef st \<and> truthy (sessionId st)"
    using that by (simp add: run camera_until_stopped_def)
  have timers: "filter is_timeout (snd (toggleRecording st)) = []
                \<and> filter is_timeout (snd (stopRecording st)) = []"
    by (simp add: toggle stop)
  have stops: "(StopRecording \<in> set (snd (toggleRecording st))) = (isRecording st \<and> cameraRef st)"
    by (simp add: toggle)
  have options: "recordAsync_options (snd (toggleRecording st))
       = (if \<not> isRecording st \<and> cameraRef st \<and> truthy (sessionId st)
          then Some startRecording_options else None)"
    by (simp add: toggle)
  from perm create timers start stops options opts run hon unt show ?thesis
    by blast
qed

text \<open>
  Witness for C2: with a camera that honours the option, the run ends at the ceiling, and
  at the press when the button is pressed again after five seconds.
\<close>

theorem C2_ceiling_is_the_cameras_witness:
  "capture_run camera_honouring_maxDuration (\<lambda>cb. [StopRecording]) screen_with_session None
     = Finalized 1800000
   \<and> capture_run camera_honouring_maxDuration (\<lambda>cb. [StopRecording]) screen_with_session
       (Some 5000) = Finalized 5000
   \<and> snd (toggleRecording screen_with_session) = [RecordAsync startRecording_options]"
  using C2_ceiling_is_the_cameras
          [where st = screen_with_session and cam = camera_honouring_maxDuration
             and fire = "\<lambda>cb. [StopRecording]" and press = "Some 5000"
             and os = Android and grants = Request_failed and u = "''bob''"
             and r = StorageError
             and create_reply = "Fetch_failed :: create_reply fetch_result"
             and result = Record_failed and reply = "Fetch_failed :: unit fetch_result"]
  by (simp add: screen_with_session_eq camera_honouring_maxDuration_def
      startRecording_options_def toggle_starts)

section \<open>Upload\<close>

text \<open>
  C3 says that an upload answered by 503 is retried, up to three attempts. It fails: the
  upload of a recording, answered by a 503, sends one request and ends with an alert.
\<close>

theorem C3_one_attempt_on_503:
  "uploadVideoForAnalysis screen_with_session ''file:///v.mp4'' (Item (Some ''tok''))
     (Fetched 503 (None :: unit option))
   = [Fetch (Post_analysis_upload ''Bearer tok'' (JStr ''s1'') ''file:///v.mp4''),
      Alert ''Error'' ''Failed to upload video'' None]
   \<and> length (filter is_fetch
        (uploadVideoForAnalysis screen_with_session ''file:///v.mp4'' (Item (Some ''tok''))
           (Fetched 503 (None :: unit option)))) = 1"
  by (simp add: uploadVideoForAnalysis_def screen_with_session_eq ok_def)

text \<open>
  C3, amended: every upload is attempted once, with no retry and no backoff: one request
  is sent when the token can be read, none otherwise. A reply outside 200..299 (a 503
  among them) ends the upload with the alert "Failed to upload video", a rejected
  request with "Upload failed". The upload does nothing but send that request, raise
  alerts and write to the console: it does not delete the recording.
\<close>

theorem C3_upload_is_attempted_once:
  "length (filter is_fetch (uploadVideoForAnalysis st uri r (reply :: 'd fetch_result)))
     = (case r of StorageError \<Rightarrow> 0 | Item _ \<Rightarrow> 1)
   \<and> (\<not> ok status \<longrightarrow>
        uploadVideoForAnalysis st uri (Item tok) (Fetched status (b :: 'd option))
          = [Fetch (Post_analysis_upload (bearer tok) (sessionId st) uri),
             Alert ''Error'' ''Failed to upload video'' None])
   \<and> uploadVideoForAnalysis st uri (Item tok) (Fetch_failed :: 'd fetch_result)
          = [Fetch (Post_analysis_upload (bearer tok) (sessionId st) uri),
             Console_error ''Upload error:'', Alert ''Error'' ''Upload failed'' None]
   \<and> filter (\<lambda>a. \<not> is_fetch a \<and> \<not> is_alert a \<and> \<not> is_console a)
        (uploadVideoForAnalysis st uri r reply) = []"
  by (simp add: uploadVideoForAnalysis_def split: storage_read.split fetch_result.split)

text \<open>Witness for C3: three different failures, one request each.\<close>

theorem C3_upload_is_attempted_once_witness:
  "uploadVideoForAnalysis screen_with_session ''v'' (Item (Some ''tok''))
     (Fetched 500 (None :: unit option))
   = [Fetch (Post_analysis_upload ''Bearer tok'' (JStr ''s1'') ''v''),
      Alert ''Error'' ''Failed to upload video'' None]
   \<and> length (filter is_fetch
        (uploadVideoForAnalysis screen_with_session ''v'' (Item (Some ''tok''))
           (Fetch_failed :: unit fetch_result))) = 1"
  using C3_upload_is_attempted_once [where st = screen_with_session and uri = "''v''"
      and r = "Item (Some ''tok'')" and reply = "Fetch_failed :: unit fetch_result"
      and status = 500 and tok = "Some ''tok''" and b = "None :: unit option"]
  by (simp add: screen_with_session_eq ok_def)

section \<open>Polling for the other participant's consent\<close>

subsection \<open>Failed polls\<close>

text \<open>
  C4 says that one failed poll is not fatal, that polls are retried up to a bounded number
  of failures in a row, and that the caller is then told PollExhausted. It fails on the
  first poll of a loop whose request is rejected: no timer is set and no request is in
  flight afterwards, so polling is over after one failure, and all that was done about it
  is a line on the console.
\<close>

theorem C4_one_rejected_poll_ends_polling:
  "poll_run (JStr ''s1'') (poll_start (JStr ''s1'') (Item (Some ''tok'')))
     [Status_settles Fetch_failed StorageError Fetch_failed]
   = Some \<lparr>alerts = 0, in_flight = 0, timers = 0,
            emitted = [Fetch (Get_sessions_status ''Bearer tok'' (JStr ''s1'')),
                       Console_error ''Status check error:'']\<rparr>"
  by (simp add: poll_start_ok checkSessionStatus_resume_def perform_def)

text \<open>
  C4, amended: a poll is retried 3000 ms later, any number of times in a row, when its
  reply has a body that parses and the test
  \<^verbatim>\<open>response.ok && data.both_consented\<close> is false: the status is not 2xx (the
  body may then be \<^verbatim>\<open>null\<close>), or the status is 2xx and the body is a value
  other than \<^verbatim>\<open>null\<close> whose \<^verbatim>\<open>both_consented\<close> is not set. After
  \<open>n\<close> such rounds the loop has sent \<open>n + 1\<close> requests, has one in flight, and has
  raised no alert. A poll ends polling at once, with a console line only, when the token
  cannot be read from storage, when its request is rejected, when the body of the reply
  does not parse (whatever the status), or when the status is 2xx and the body is
  \<^verbatim>\<open>null\<close>. There is no failure count and no PollExhausted signal.
\<close>

theorem C4_retries_are_unbounded_and_a_throw_is_final:
  "(\<not> (ok status \<and> truthy (both_consented d)) \<longrightarrow>
      poll_run sid (poll_start sid (Item tok))
        (concat (replicate n (unanswered_round (Fetched status (Some d)) tok)))
      = Some \<lparr>alerts = 0, in_flight = 1, timers = 0,
               emitted = Fetch (Get_sessions_status (bearer tok) sid) #
                 concat (replicate n [SetTimeout Cb_checkSessionStatus 3000,
                                      Fetch (Get_sessions_status (bearer tok) sid)])\<rparr>)
   \<and> (\<not> ok status \<longrightarrow>
      poll_run sid (poll_start sid (Item tok))
        (concat (replicate n (unanswered_round (Fetched_null status) tok)))
      = Some \<lparr>alerts = 0, in_flight = 1, timers = 0,
               emitted = Fetch (Get_sessions_status (bearer tok) sid) #
                 concat (replicate n [SetTimeout Cb_checkSessionStatus 3000,
                                      Fetch (Get_sessions_status (bearer tok) sid)])\<rparr>)
   \<and> poll_run sid (poll_start sid (Item tok))
        [Status_settles Fetch_failed start_read start_reply]
      = Some \<lparr>alerts = 0, in_flight = 0, timers = 0,
               emitted = [Fetch (Get_sessions_status (bearer tok) sid),
                          Console_error ''Status check error:'']\<rparr>
   \<and> poll_run sid (poll_start sid (Item tok))
        [Status_settles (Fetched status None) start_read start_reply]
      = Some \<lparr>alerts = 0, in_flight = 0, timers = 0,
               emitted = [Fetch (Get_sessions_status (bearer tok) sid),
                          Console_error ''Status check error:'']\<rparr>
   \<and> (ok status \<longrightarrow>
      poll_run sid (poll_start sid (Item tok))
        [Status_settles (Fetched_null status) start_read start_reply]
      = Some \<lparr>alerts = 0, in_flight = 0, timers = 0,
               emitted = [Fetch (Get_sessions_status (bearer tok) sid),
                          Console_error ''Status check error:'']\<rparr>)
   \<and> poll_run sid \<lparr>alerts = 0, in_flight = 0, timers = 1, emitted = em\<rparr>
        [Timer_fires StorageError]
      = Some \<lparr>alerts = 0, in_flight = 0, timers = 0,
               emitted = em @ [Console_error ''Status check error:'']\<rparr>"
proof -
  have retried: "poll_run sid (poll_start sid (Item tok))
        (concat (replicate n (unanswered_round (Fetched status (Some d)) tok)))
      = Some \<lparr>alerts = 0, in_flight = 1, timers = 0,
               emitted = Fetch (Get_sessions_status (bearer tok) sid) #
                 concat (replicate n [SetTimeout Cb_checkSessionStatus 3000,
                                      Fetch (Get_sessions_status (bearer tok) sid)])\<rparr>"
    if "\<not> (ok status \<and> truthy (both_consented d))"
  proof -
    from that
    have "checkSessionStatus_resume sid (Fetched status (Some d)) StorageError
            (Fetch_failed :: unit fetch_result) = [SetTimeout Cb_checkSessionStatus 3000]"
      by (auto simp add: checkSessionStatus_resume_def)
    from unanswered_rounds_run [OF this] show ?thesis
      by (simp add: poll_start_ok)
  qed
  have retried_null: "poll_run sid (poll_start sid (Item tok))
        (concat (replicate n (unanswered_round (Fetched_null status) tok)))
      = Some \<lparr>alerts = 0, in_flight = 1, timers = 0,
               emitted = Fetch (Get_sessions_status (bearer tok) sid) #
                 concat (replicate n [SetTimeout Cb_checkSessionStatus 3000,
                                      Fetch (Get_sessions_status (bearer tok) sid)])\<rparr>"
    if "\<not> ok status"
  proof -
    from that
    have "checkSessionStatus_resume sid (Fetched_null status :: status_reply fetch_result)
            StorageError (Fetch_failed :: unit fetch_result)
          = [SetTimeout Cb_checkSessionStatus 3000]"
      by (simp add: checkSessionStatus_resume_def)
    from unanswered_rounds_run [OF this] show ?thesis
      by (simp add: poll_start_ok)
  qed
  have thrown: "poll_run sid (poll_start sid (Item tok))
        [Status_settles Fetch_failed start_read start_reply]
      = Some \<lparr>alerts = 0, in_flight = 0, timers = 0,
               emitted = [Fetch (Get_sessions_status (bearer tok) sid),
                          Console_error ''Status check error:'']\<rparr>"
    by (simp add: poll_start_ok checkSessionStatus_resume_def perform_def)
  have unread: "poll_run sid (poll_start sid (Item tok))
        [Status_settles (Fetched status None) start_read start_reply]
      = Some \<lparr>alerts = 0, in_flight = 0, timers = 0,
               emitted = [Fetch (Get_sessions_status (bearer tok) sid),
                          Console_error ''Status check error:'']\<rparr>"
    by (simp add: poll_start_ok checkSessionStatus_resume_def perform_def)
  have null: "poll_run sid (poll_start sid (Item tok))
        [Status_settles (Fetched_null status) start_read start_reply]
      = Some \<lparr>alerts = 0, in_flight = 0, timers = 0,
               emitted = [Fetch (Get_sessions_status (bearer tok) sid),
                          Console_error ''Status check error:'']\<rparr>"
    if "ok status"
    using that by (simp add: poll_start_ok checkSessionStatus_resume_def perform_def)
  have no_token: "poll_run sid \<lparr>alerts = 0, in_flight = 0, timers = 1, emitted = em\<rparr>
        [Timer_fires StorageError]
      = Some \<lparr>alerts = 0, in_flight = 0, timers = 0,
               emitted = em @ [Console_error ''Status check error:'']\<rparr>"
    by (simp add: checkSessionStatus_begin_def perform_def)
  from retried retried_null thrown unread null no_token show ?thesis by blast
qed

text \<open>
  Witness for C4: four polls in a row answered by a 503 with a body, and a fifth sent; and
  a 200 reply with a null body, which ends polling.
\<close>

theorem C4_retries_are_unbounded_and_a_throw_is_final_witness:
  "poll_run (JStr ''s1'') (poll_start (JStr ''s1'') (Item (Some ''tok'')))
     (concat (replicate 4
        (unanswered_round
           (Fetched 503 (Some \<lparr>both_consented = JUndefined, state = AwaitingConsent\<rparr>))
           (Some ''tok''))))
   = Some \<lparr>alerts = 0, in_flight = 1, timers = 0,
            emitted = Fetch (Get_sessions_status ''Bearer tok'' (JStr ''s1'')) #
              concat (replicate 4 [SetTimeout Cb_checkSessionStatus 3000,
                                   Fetch (Get_sessions_status ''Bearer tok'' (JStr ''s1''))])\<rparr>
   \<and> poll_run (JStr ''s1'') (poll_start (JStr ''s1'') (Item (Some ''tok'')))
        [Status_settles (Fetched_null 200) StorageError Fetch_failed]
   = Some \<lparr>alerts = 0, in_flight = 0, timers = 0,
            emitted = [Fetch (Get_sessions_status ''Bearer tok'' (JStr ''s1'')),
                       Console_error ''Status check error:'']\<rparr>"
  using C4_retries_are_unbounded_and_a_throw_is_final
          [where status = 503
             and d = "\<lparr>both_consented = JUndefined, state = AwaitingConsent\<rparr>"
             and sid = "JStr ''s1''" and tok = "Some ''tok''" and n = 4
             and start_read = StorageError and start_reply = Fetch_failed and em = "[]"]
        C4_retries_are_unbounded_and_a_throw_is_final
          [where status = 200
             and d = "\<lparr>both_consented = JUndefined, state = AwaitingConsent\<rparr>"
             and sid = "JStr ''s1''" and tok = "Some ''tok''" and n = 4
             and start_read = StorageError and start_reply = Fetch_failed and em = "[]"]
  by (simp add: ok_def)

subsection \<open>When polling stops\<close>

text \<open>
  C5 says that a status reply reporting the session cancelled or expired ends polling. It
  fails on a 200 reply that reports the session cancelled: the handler sets the timer for
  the next poll.
\<close>

theorem C5_cancelled_reply_keeps_polling:
  "poll_run (JStr ''s1'') (poll_start (JStr ''s1'') (Item (Some ''tok'')))
     [Status_settles (Fetched 200 (Some \<lparr>both_consented = JBool False, state = Cancelled\<rparr>))
        StorageError Fetch_failed]
   = Some \<lparr>alerts = 0, in_flight = 0, timers = 1,
            emitted = [Fetch (Get_sessions_status ''Bearer tok'' (JStr ''s1'')),
                       SetTimeout Cb_checkSessionStatus 3000]\<rparr>"
  by (simp add: poll_start_ok checkSessionStatus_resume_def perform_def ok_def)

text \<open>
  C5, amended: what a status reply does to the loop is decided by the request's outcome,
  the status and \<^verbatim>\<open>both_consented\<close>, never by the state the reply reports. The
  timer for the next poll is set exactly when the body parses and the test
  \<^verbatim>\<open>response.ok && data.both_consented\<close> is false: the status is not 2xx, or
  the body is not \<^verbatim>\<open>null\<close> and its \<^verbatim>\<open>both_consented\<close> is not set. So
  however many replies in a row report the session cancelled or expired without
  \<^verbatim>\<open>both_consented\<close>, the next request is sent. Polling ends on a 2xx reply
  with \<^verbatim>\<open>both_consented\<close> set (the start of the session is then requested), and
  when the poll throws (the token cannot be read, the request is rejected, the body does
  not parse, or a 2xx reply has the body \<^verbatim>\<open>null\<close>). Nothing cancels a timer
  once set: when it fires, \<^verbatim>\<open>checkSessionStatus\<close> runs and, the token read,
  sends the next request.
\<close>

theorem C5_polling_stops_on_both_consented_only:
  "filter is_poll_timer
     (checkSessionStatus_resume sid (Fetched status (Some d)) start_read start_reply)
     = (if ok status \<and> truthy (both_consented d) then []
        else [SetTimeout Cb_checkSessionStatus 3000])
   \<and> filter is_poll_timer
     (checkSessionStatus_resume sid (Fetched_null status :: status_reply fetch_result)
        start_read start_reply)
     = (if ok status then [] else [SetTimeout Cb_checkSessionStatus 3000])
   \<and> filter is_poll_timer
     (checkSessionStatus_resume sid (Fetched status None :: status_reply fetch_result)
        start_read start_reply) = []
   \<and> filter is_poll_timer
     (checkSessionStatus_resume sid (Fetch_failed :: status_reply fetch_result)
        start_read start_reply) = []
   \<and> (\<not> truthy (both_consented d) \<longrightarrow>
        poll_run sid (poll_start sid (Item tok))
          (concat (replicate n
             (unanswered_round (Fetched status (Some (d\<lparr>state := s\<rparr>))) tok)))
        = Some \<lparr>alerts = 0, in_flight = 1, timers = 0,
                 emitted = Fetch (Get_sessions_status (bearer tok) sid) #
                   concat (replicate n [SetTimeout Cb_checkSessionStatus 3000,
                                        Fetch (Get_sessions_status (bearer tok) sid)])\<rparr>)
   \<and> (ok status \<and> truthy (both_consented d) \<longrightarrow>
        poll_run sid (poll_start sid (Item tok))
          [Status_settles (Fetched status (Some d)) start_read start_reply]
        = Some \<lparr>alerts = 0, in_flight = 0, timers = 0,
                 emitted = Fetch (Get_sessions_status (bearer tok) sid) #
                   startSession sid start_read start_reply\<rparr>)
   \<and> poll_step sid (p\<lparr>timers := Suc k\<rparr>) (Timer_fires (Item tok))
     = Some (p\<lparr>timers := k, in_flight := Suc (in_flight p),
               emitted := emitted p @ [Fetch (Get_sessions_status (bearer tok) sid)]\<rparr>)
   \<and> poll_step sid (p\<lparr>timers := Suc k\<rparr>) (Timer_fires StorageError)
     = Some (p\<lparr>timers := k,
               emitted := emitted p @ [Console_error ''Status check error:'']\<rparr>)"
proof -
  have timer: "filter is_poll_timer
     (checkSessionStatus_resume sid (Fetched status (Some d)) start_read start_reply)
     = (if ok status \<and> truthy (both_consented d) then []
        else [SetTimeout Cb_checkSessionStatus 3000])"
    by (simp add: checkSessionStatus_resume_def startSession_counts)
  have timer_null: "filter is_poll_timer
     (checkSessionStatus_resume sid (Fetched_null status :: status_reply fetch_result)
        start_read start_reply)
     = (if ok status then [] else [SetTimeout Cb_checkSessionStatus 3000])"
    by (simp add: checkSessionStatus_resume_def)
  have timer_unread: "filter is_poll_timer
     (checkSessionStatus_resume sid (Fetched status None :: status_reply fetch_result)
        start_read start_reply) = []"
    by (simp add: checkSessionStatus_resume_def)
  have timer_failed: "filter is_poll_timer
     (checkSessionStatus_resume sid (Fetch_failed :: status_reply fetch_result)
        start_read start_reply) = []"
    by (simp add: checkSessionStatus_resume_def)
  have goes_on: "poll_run sid (poll_start sid (Item tok))
          (concat (replicate n
             (unanswered_round (Fetched status (Some (d\<lparr>state := s\<rparr>))) tok)))
        = Some \<lparr>alerts = 0, in_flight = 1, timers = 0,
                 emitted = Fetch (Get_sessions_status (bearer tok) sid) #
                   concat (replicate n [SetTimeout Cb_checkSessionStatus 3000,
                                        Fetch (Get_sessions_status (bearer tok) sid)])\<rparr>"
    if "\<not> truthy (both_consented d)"
  proof -
    from that
    have "checkSessionStatus_resume sid (Fetched status (Some (d\<lparr>state := s\<rparr>))) StorageError
            (Fetch_failed :: unit fetch_result) = [SetTimeout Cb_checkSessionStatus 3000]"
      by (simp add: checkSessionStatus_resume_def)
    from unanswered_rounds_run [OF this] show ?thesis
      by (simp add: poll_start_ok)
  qed
  have over: "poll_run sid (poll_start sid (Item tok))
          [Status_settles (Fetched status (Some d)) start_read start_reply]
        = Some \<lparr>alerts = 0, in_flight = 0, timers = 0,
                 emitted = Fetch (Get_sessions_status (bearer tok) sid) #
                   startSession sid start_read start_reply\<rparr>"
    if "ok status \<and> truthy (both_consented d)"
  proof -
    have "filter is_poll_alert (startSession sid start_read start_reply) = []"
      by (simp add: startSession_def split: storage_read.split fetch_result.split)
    with that show ?thesis
      by (simp add: poll_start_ok checkSessionStatus_resume_def perform_def
          startSession_counts)
  qed
  have fires: "poll_step sid (p\<lparr>timers := Suc k\<rparr>) (Timer_fires (Item tok))
     = Some (p\<lparr>timers := k, in_flight := Suc (in_flight p),
               emitted := emitted p @ [Fetch (Get_sessions_status (bearer tok) sid)]\<rparr>)"
    by (simp add: perform_def checkSessionStatus_begin_def)
  have no_token: "poll_step sid (p\<lparr>timers := Suc k\<rparr>) (Timer_fires StorageError)
     = Some (p\<lparr>timers := k,
               emitted := emitted p @ [Console_error ''Status check error:'']\<rparr>)"
    by (simp add: perform_def checkSessionStatus_begin_def)
  from timer timer_null timer_unread timer_failed goes_on over fires no_token show ?thesis
    by blast
qed

text \<open>
  Witness for C5: three replies in a row that report the session expired; a fourth request
  is in flight.
\<close>

theorem C5_polling_stops_on_both_consented_only_witness:
  "poll_run (JStr ''s1'') (poll_start (JStr ''s1'') (Item (Some ''tok'')))
     (concat (replicate 3
        (unanswered_round
           (Fetched 200 (Some \<lparr>both_consented = JBool False, state = Expired\<rparr>))
           (Some ''tok''))))
   = Some \<lparr>alerts = 0, in_flight = 1, timers = 0,
            emitted = Fetch (Get_sessions_status ''Bearer tok'' (JStr ''s1'')) #
              concat (replicate 3 [SetTimeout Cb_checkSessionStatus 3000,
                                   Fetch (Get_sessions_status ''Bearer tok'' (JStr ''s1''))])\<rparr>"
  using C5_polling_stops_on_both_consented_only
          [where sid = "JStr ''s1''" and status = 200
             and d = "\<lparr>both_consented = JBool False, state = AwaitingConsent\<rparr>"
             and start_read = StorageError and start_reply = "Fetch_failed"
             and s = Expired and k = 0 and tok = "Some ''tok''" and n = 3
             and p = "\<lparr>alerts = 0, in_flight = 0, timers = 0, emitted = []\<rparr>"]
  by simp

subsection \<open>Status requests in flight at once\<close>

text \<open>
  C6 says that no two status requests for the same session are ever in flight at once. It
  fails when a second loop is started: the consent button is pressed and accepted, OK on
  the alert starts a loop; the button is pressed and accepted again, and OK on the second
  alert starts another loop, while the request of the first is still in flight. Nothing in
  the screen prevents the second press.
\<close>

theorem C6_two_loops_two_requests:
  "poll_run (JStr ''s1'') ConsentScreen_idle
     [Consent_pressed True (Item (Some ''tok'')) (Fetched 200 (Some AwaitingConsent)),
      Ok_pressed (Item (Some ''tok'')),
      Consent_pressed True (Item (Some ''tok'')) (Fetched 200 (Some AwaitingConsent)),
      Ok_pressed (Item (Some ''tok''))]
   = Some \<lparr>alerts = 0, in_flight = 2, timers = 0,
            emitted =
              [Fetch (Post_sessions_consent ''Bearer tok'' (JStr ''s1'') True),
               Alert ''Consent Recorded'' ''Waiting for other participant to consent...''
                 (Some Cb_checkSessionStatus),
               Fetch (Get_sessions_status ''Bearer tok'' (JStr ''s1'')),
               Fetch (Post_sessions_consent ''Bearer tok'' (JStr ''s1'') True),
               Alert ''Consent Recorded'' ''Waiting for other participant to consent...''
                 (Some Cb_checkSessionStatus),
               Fetch (Get_sessions_status ''Bearer tok'' (JStr ''s1''))]\<rparr>"
  by (simp add: ConsentScreen_idle_def perform_def submitConsent_def
      checkSessionStatus_begin_def ok_def)

text \<open>
  C6, amended: on a consent screen, whatever is pressed and however the requests settle,
  the status requests in flight and the poll timers pending never number more, together,
  than the loops started (the presses of OK on the alert of an accepted consent). So a
  loop alone never has two requests in flight, and while its request is in flight it has
  no timer pending: its next request is sent only after the previous one has settled. Each
  further loop can add one request in flight for the same session.
\<close>

theorem C6_one_status_request_per_loop:
  "poll_run sid ConsentScreen_idle es = Some p \<Longrightarrow>
     in_flight p + timers p \<le> length (filter is_ok_press es)
   \<and> (length (filter is_ok_press es) = 1 \<longrightarrow>
        in_flight p \<le> 1 \<and> (if in_flight p = 1 then timers p = 0 else timers p \<le> 1))"
proof -
  assume "poll_run sid ConsentScreen_idle es = Some p"
  from poll_run_outstanding [OF this]
  have "in_flight p + timers p \<le> length (filter is_ok_press es)"
    by (simp add: outstanding_def ConsentScreen_idle_def)
  then show ?thesis by auto
qed

text \<open>
  Witness for C6: one loop, through a poll answered without consent and the timer firing:
  one request is in flight and no timer is pending, so no timer can fire.
\<close>

theorem C6_one_status_request_per_loop_witness:
  "poll_run (JStr ''s1'') ConsentScreen_idle
     ([Consent_pressed True (Item (Some ''tok'')) (Fetched 200 (Some AwaitingConsent)),
       Ok_pressed (Item (Some ''tok''))] @
      unanswered_round
        (Fetched 200 (Some \<lparr>both_consented = JBool False, state = AwaitingConsent\<rparr>))
        (Some ''tok''))
   = Some \<lparr>alerts = 0, in_flight = 1, timers = 0,
            emitted =
              [Fetch (Post_sessions_consent ''Bearer tok'' (JStr ''s1'') True),
               Alert ''Consent Recorded'' ''Waiting for other participant to consent...''
                 (Some Cb_checkSessionStatus),
               Fetch (Get_sessions_status ''Bearer tok'' (JStr ''s1'')),
               SetTimeout Cb_checkSessionStatus 3000,
               Fetch (Get_sessions_status ''Bearer tok'' (JStr ''s1''))]\<rparr>
   \<and> poll_step (JStr ''s1'')
        \<lparr>alerts = 0, in_flight = 1, timers = 0, emitted = []\<rparr>
        (Timer_fires (Item (Some ''tok''))) = None"
proof -
  have run: "poll_run (JStr ''s1'') ConsentScreen_idle
     ([Consent_pressed True (Item (Some ''tok'')) (Fetched 200 (Some AwaitingConsent)),
       Ok_pressed (Item (Some ''tok''))] @
      unanswered_round
        (Fetched 200 (Some \<lparr>both_consented = JBool False, state = AwaitingConsent\<rparr>))
        (Some ''tok''))
   = Some \<lparr>alerts = 0, in_flight = 1, timers = 0,
            emitted =
              [Fetch (Post_sessions_consent ''Bearer tok'' (JStr ''s1'') True),
               Alert ''Consent Recorded'' ''Waiting for other participant to consent...''
                 (Some Cb_checkSessionStatus),
               Fetch (Get_sessions_status ''Bearer tok'' (JStr ''s1'')),
               SetTimeout Cb_checkSessionStatus 3000,
               Fetch (Get_sessions_status ''Bearer tok'' (JStr ''s1''))]\<rparr>"
    by (simp add: ConsentScreen_idle_def unanswered_round_def perform_def submitConsent_def
        checkSessionStatus_resume_def checkSessionStatus_begin_def ok_def)
  from C6_one_status_request_per_loop [OF run] run show ?thesis
    by (simp add: unanswered_round_def)
qed

section \<open>Consent\<close>

text \<open>
  C7: against the backend as the spec describes it, a decline that arrives while the
  session still awaits consent cancels the session, and from then on every consent
  submission, from either participant and with either decision, fails with StaleSession
  and leaves the session cancelled; \<^verbatim>\<open>submitConsent\<close> reports the decline as
  "Session Cancelled" and each later submission, which it still sends, as "Failed to
  record consent". A submission is accepted only in a session that still awaits consent
  (created or AwaitingConsent), and an accepted one never leaves the session in Created,
  so every submission after the first is accepted only in AwaitingConsent.
\<close>

theorem C7_declined_session_refuses_submissions:
  "ok accepted \<Longrightarrow> \<not> ok refused \<Longrightarrow>
   session_state_of s = Created \<or> session_state_of s = AwaitingConsent \<Longrightarrow>
     (\<exists>t. backend_submitConsent s who Declined = Inr t
          \<and> session_state_of t = Cancelled
          \<and> (\<forall>who' d. backend_submitConsent t who' d = Inl StaleSession)
          \<and> consent_session accepted refused sid s ((who, False, tok) # later)
              = (t, [Fetch (Post_sessions_consent (bearer tok) sid False),
                     Alert ''Session Cancelled'' ''Recording session has been cancelled.''
                       (Some Cb_goBack)] @ refused_presses sid later))
   \<and> (\<forall>s' w d' t'. backend_submitConsent s' w d' = Inr t' \<longrightarrow>
          (session_state_of s' = Created \<or> session_state_of s' = AwaitingConsent)
          \<and> session_state_of t' \<noteq> Created)"
proof -
  assume acc: "ok accepted" and ref: "\<not> ok refused"
    and open_session: "session_state_of s = Created \<or> session_state_of s = AwaitingConsent"
  define t where "t = (record_decision who Declined s)\<lparr>session_state_of := Cancelled\<rparr>"
  have declined: "backend_submitConsent s who Declined = Inr t"
    using open_session
    by (cases who) (auto simp add: backend_submitConsent_def evaluate_def t_def)
  have cancelled: "session_state_of t = Cancelled"
    by (simp add: t_def)
  have stale: "backend_submitConsent t who' d = Inl StaleSession" for who' d
    using cancelled by (rule cancelled_refuses)
  have later_refused: "consent_session accepted refused sid t later
                         = (t, refused_presses sid later)"
    using cancelled ref by (rule consent_session_cancelled)
  have run: "consent_session accepted refused sid s ((who, False, tok) # later)
              = (t, [Fetch (Post_sessions_consent (bearer tok) sid False),
                     Alert ''Session Cancelled'' ''Recording session has been cancelled.''
                       (Some Cb_goBack)] @ refused_presses sid later)"
    using acc
    by (simp add: decision_of_def declined later_refused submitConsent_def)
  have only: "(session_state_of s' = Created \<or> session_state_of s' = AwaitingConsent)
              \<and> session_state_of t' \<noteq> Created"
    if "backend_submitConsent s' w d' = Inr t'" for s' w d' t'
    using that
    by (auto simp add: backend_submitConsent_def evaluate_def split: if_splits)
  from declined cancelled stale run only show ?thesis
    by blast
qed

text \<open>
  Witness for C7: the initiator consents, the participant declines, and then each of them
  submits again, the initiator a consent and the participant a decline.
\<close>

theorem C7_declined_session_refuses_submissions_witness:
  "consent_session 200 409 (JStr ''s1'') created_session
     [(Initiator, True, Some ''a''), (Participant, False, Some ''b''),
      (Initiator, True, Some ''a''), (Participant, False, Some ''b'')]
   = (\<lparr>session_state_of = Cancelled, initiator_record = Granted,
        participant_record = Declined\<rparr>,
      [Fetch (Post_sessions_consent ''Bearer a'' (JStr ''s1'') True),
       Alert ''Consent Recorded'' ''Waiting for other participant to consent...''
         (Some Cb_checkSessionStatus),
       Fetch (Post_sessions_consent ''Bearer b'' (JStr ''s1'') False),
       Alert ''Session Cancelled'' ''Recording session has been cancelled.'' (Some Cb_goBack),
       Fetch (Post_sessions_consent ''Bearer a'' (JStr ''s1'') True),
       Alert ''Error'' ''Failed to record consent'' None,
       Fetch (Post_sessions_consent ''Bearer b'' (JStr ''s1'') False),
       Alert ''Error'' ''Failed to record consent'' None])"
proof -
  let ?awaiting = "\<lparr>session_state_of = AwaitingConsent, initiator_record = Granted,
                     participant_record = Pending\<rparr>"
  let ?later = "[(Initiator, True, Some ''a''), (Participant, False, Some ''b'')]"
  have granted: "backend_submitConsent created_session Initiator Granted = Inr ?awaiting"
    by (simp add: backend_submitConsent_def created_session_def evaluate_def)
  have acc: "ok 200" and ref: "\<not> ok 409"
    by (simp_all add: ok_def)
  have open_session: "session_state_of ?awaiting = Created
                      \<or> session_state_of ?awaiting = AwaitingConsent"
    by simp
  from C7_declined_session_refuses_submissions
         [OF acc ref open_session, of Participant "JStr ''s1''" "Some ''b''" ?later]
  obtain t where declined: "backend_submitConsent ?awaiting Participant Declined = Inr t"
    and run: "consent_session 200 409 (JStr ''s1'') ?awaiting
                ((Participant, False, Some ''b'') # ?later)
              = (t, [Fetch (Post_sessions_consent (bearer (Some ''b'')) (JStr ''s1'') False),
                     Alert ''Session Cancelled'' ''Recording session has been cancelled.''
                       (Some Cb_goBack)] @ refused_presses (JStr ''s1'') ?later)"
    by blast
  from declined
  have t: "t = \<lparr>session_state_of = Cancelled, initiator_record = Granted,
                 participant_record = Declined\<rparr>"
    by (simp add: backend_submitConsent_def evaluate_def)
  have "consent_session 200 409 (JStr ''s1'') created_session
          ((Initiator, True, Some ''a'') # (Participant, False, Some ''b'') # ?later)
        = (t, submitConsent (JStr ''s1'') True (Item (Some ''a''))
                (Fetched 200 (Some AwaitingConsent)) @
              [Fetch (Post_sessions_consent (bearer (Some ''b'')) (JStr ''s1'') False),
               Alert ''Session Cancelled'' ''Recording session has been cancelled.''
                 (Some Cb_goBack)] @ refused_presses (JStr ''s1'') ?later)"
    using run by (simp add: decision_of_def granted)
  then show ?thesis
    by (simp add: t submitConsent_def ok_def)
qed

section \<open>Operations at the wrong moment\<close>

text \<open>
  C8 says that an operation invoked when it is not valid is rejected with an error and
  never does nothing silently. It fails on the record button pressed before any session
  exists: the button flips to its recording look, and nothing else happens, no alert and
  no console line; the whole of \<^verbatim>\<open>startRecording\<close> is empty there.
\<close>

theorem C8_start_without_session_is_silent:
  "toggleRecording screen_with_camera = (screen_with_camera\<lparr>isRecording := True\<rparr>, [])
   \<and> startRecording screen_with_camera (Recorded ''file:///v.mp4'') (Item (Some ''tok''))
        (Fetched 200 (None :: unit option)) = []"
  by (simp add: screen_with_camera_eq toggleRecording_def startRecording_begin_def
      startRecording_def)

text \<open>
  C8, amended: some failures are reported and some are silent. Silent:
  \<^verbatim>\<open>startRecording\<close> without a camera reference or a session id does nothing at
  all, and a start-session request that the backend refuses is followed by no message.
  Reported by an alert: a session creation, a consent submission or an upload that the
  backend refuses, and a recording that the camera rejects.
\<close>

theorem C8_which_failures_are_reported:
  "(startRecording st cam r reply = []) = (\<not> cameraRef st \<or> \<not> truthy (sessionId st))
   \<and> (startRecording_begin st = []) = (\<not> cameraRef st \<or> \<not> truthy (sessionId st))
   \<and> (\<not> ok status \<longrightarrow>
        startSession sid (Item tok) (Fetched status b)
          = [Fetch (Post_sessions_start (bearer tok) sid)]
        \<and> filter is_alert (snd (createSession u (Item tok) (Fetched status (Some d)) st))
          = [Alert ''Error'' (detail_or (detail d) ''Failed to create session'') None]
        \<and> filter is_alert (submitConsent sid c (Item tok) (Fetched status b))
          = [Alert ''Error'' ''Failed to record consent'' None]
        \<and> filter is_alert (uploadVideoForAnalysis st uri (Item tok) (Fetched status b))
          = [Alert ''Error'' ''Failed to upload video'' None])
   \<and> filter is_alert (startRecording_resume st Record_failed r reply)
          = [Alert ''Error'' ''Failed to start recording'' None]"
proof -
  have silent: "(startRecording st cam r reply = [])
                  = (\<not> cameraRef st \<or> \<not> truthy (sessionId st))"
    by (simp add: startRecording_def)
  have silent': "(startRecording_begin st = []) = (\<not> cameraRef st \<or> \<not> truthy (sessionId st))"
    by (simp add: startRecording_begin_def)
  have refused: "startSession sid (Item tok) (Fetched status b)
          = [Fetch (Post_sessions_start (bearer tok) sid)]
        \<and> filter is_alert (snd (createSession u (Item tok) (Fetched status (Some d)) st))
          = [Alert ''Error'' (detail_or (detail d) ''Failed to create session'') None]
        \<and> filter is_alert (submitConsent sid c (Item tok) (Fetched status b))
          = [Alert ''Error'' ''Failed to record consent'' None]
        \<and> filter is_alert (uploadVideoForAnalysis st uri (Item tok) (Fetched status b))
          = [Alert ''Error'' ''Failed to upload video'' None]"
    if "\<not> ok status"
    using that
    by (simp add: startSession_def createSession_def submitConsent_def uploadVideoForAnalysis_def)
  have camera: "filter is_alert (startRecording_resume st Record_failed r reply)
          = [Alert ''Error'' ''Failed to start recording'' None]"
    by (simp add: startRecording_resume_def)
  from silent silent' refused camera show ?thesis by blast
qed

text \<open>
  Witness for C8: no session on the screen, and a start-session request refused with 409.
\<close>

theorem C8_which_failures_are_reported_witness:
  "startRecording_begin screen_with_camera = []
   \<and> startSession (JStr ''s1'') (Item (Some ''tok'')) (Fetched 409 (None :: unit option))
       = [Fetch (Post_sessions_start ''Bearer tok'' (JStr ''s1''))]"
  using C8_which_failures_are_reported
          [where st = screen_with_camera and cam = Record_failed and r = StorageError
             and reply = "Fetched 409 (None :: unit option)" and status = 409
             and sid = "JStr ''s1''" and tok = "Some ''tok''" and b = "None :: unit option"
             and u = "''bob''" and d = "\<lparr>session_id = JNull, detail = None\<rparr>"
             and c = True and uri = "''v''"]
  by (simp add: screen_with_camera_eq ok_def)

section \<open>From both consents to the start of the session\<close>

text \<open>
  C9: when a status poll is answered (with a 2xx reply) that both participants consented,
  the handler sends the start-session request, and reports the session as started when
  that request is accepted; when the poll is answered that they have not, it sends no
  start request and sets the timer for the next poll. A start request is sent in that one
  case only: by \<^verbatim>\<open>checkSessionStatus\<close> exactly when the token was read, the
  reply is a 2xx reply with \<^verbatim>\<open>both_consented\<close> set and the token can be read
  again, and never by a consent submission.
\<close>

theorem C9_start_follows_both_consented:
  "(ok status \<and> both_consented d = JBool True \<and> ok start_status \<longrightarrow>
      checkSessionStatus sid (Item tok) (Fetched status (Some d)) (Item start_tok)
        (Fetched start_status start_body)
        = [Fetch (Get_sessions_status (bearer tok) sid),
           Fetch (Post_sessions_start (bearer start_tok) sid),
           Alert ''Session Started'' ''Both parties have consented. Recording can now begin.''
             (Some Cb_goBack)])
   \<and> (both_consented d = JBool False \<longrightarrow>
      checkSessionStatus sid (Item tok) (Fetched status (Some d)) start_read start_reply
        = [Fetch (Get_sessions_status (bearer tok) sid), SetTimeout Cb_checkSessionStatus 3000])
   \<and> (filter is_start_request (checkSessionStatus sid r reply start_read start_reply) \<noteq> [])
        = (\<exists>t s e t'. r = Item t \<and> reply = Fetched s (Some e) \<and> ok s
             \<and> truthy (both_consented e) \<and> start_read = Item t')
   \<and> filter is_start_request (submitConsent sid c r consent_reply) = []"
proof -
  have started: "checkSessionStatus sid (Item tok) (Fetched status (Some d)) (Item start_tok)
                   (Fetched start_status start_body)
        = [Fetch (Get_sessions_status (bearer tok) sid),
           Fetch (Post_sessions_start (bearer start_tok) sid),
           Alert ''Session Started'' ''Both parties have consented. Recording can now begin.''
             (Some Cb_goBack)]"
    if "ok status \<and> both_consented d = JBool True \<and> ok start_status"
    using that
    by (simp add: checkSessionStatus_def checkSessionStatus_resume_def startSession_def)
  have waiting: "checkSessionStatus sid (Item tok) (Fetched status (Some d)) start_read
                   start_reply
        = [Fetch (Get_sessions_status (bearer tok) sid), SetTimeout Cb_checkSessionStatus 3000]"
    if "both_consented d = JBool False"
    using that by (simp add: checkSessionStatus_def checkSessionStatus_resume_def)
  have only: "(filter is_start_request (checkSessionStatus sid r reply start_read start_reply)
                 \<noteq> [])
        = (\<exists>t s e t'. r = Item t \<and> reply = Fetched s (Some e) \<and> ok s
             \<and> truthy (both_consented e) \<and> start_read = Item t')"
    by (auto simp add: checkSessionStatus_def checkSessionStatus_resume_def startSession_def
        split: storage_read.splits fetch_result.splits option.splits if_splits)
  have consent: "filter is_start_request (submitConsent sid c r consent_reply) = []"
    by (simp add: submitConsent_def split: storage_read.split fetch_result.split)
  from started waiting only consent show ?thesis by blast
qed

text \<open>
  Witness for C9: a poll answered that both consented, followed by an accepted start; and
  a poll answered that consent is still awaited.
\<close>

theorem C9_start_follows_both_consented_witness:
  "checkSessionStatus (JStr ''s1'') (Item (Some ''tok''))
     (Fetched 200 (Some \<lparr>both_consented = JBool True, state = BothConsented\<rparr>))
     (Item (Some ''tok'')) (Fetched 200 (Some Started))
   = [Fetch (Get_sessions_status ''Bearer tok'' (JStr ''s1'')),
      Fetch (Post_sessions_start ''Bearer tok'' (JStr ''s1'')),
      Alert ''Session Started'' ''Both parties have consented. Recording can now begin.''
        (Some Cb_goBack)]
   \<and> checkSessionStatus (JStr ''s1'') (Item (Some ''tok''))
     (Fetched 200 (Some \<lparr>both_consented = JBool False, state = AwaitingConsent\<rparr>))
     (Item (Some ''tok'')) (Fetched 200 (Some Started))
   = [Fetch (Get_sessions_status ''Bearer tok'' (JStr ''s1'')),
      SetTimeout Cb_checkSessionStatus 3000]"
  using C9_start_follows_both_consented
          [where status = 200
             and d = "\<lparr>both_consented = JBool True, state = BothConsented\<rparr>"
             and start_status = 200 and sid = "JStr ''s1''" and tok = "Some ''tok''"
             and start_tok = "Some ''tok''" and start_body = "Some Started"
             and start_read = "Item (Some ''tok'')"
             and start_reply = "Fetched 200 (Some Started)" and r = StorageError
             and reply = "Fetch_failed :: status_reply fetch_result" and c = True
             and consent_reply = "Fetch_failed :: unit fetch_result"]
        C9_start_follows_both_consented
          [where status = 200
             and d = "\<lparr>both_consented = JBool False, state = AwaitingConsent\<rparr>"
             and start_status = 200 and sid = "JStr ''s1''" and tok = "Some ''tok''"
             and start_tok = "Some ''tok''" and start_body = "Some Started"
             and start_read = "Item (Some ''tok'')"
             and start_reply = "Fetched 200 (Some Started)" and r = StorageError
             and reply = "Fetch_failed :: status_reply fetch_result" and c = True
             and consent_reply = "Fetch_failed :: unit fetch_result"]
  by (simp add: ok_def)

section \<open>Authentication at startup\<close>

text \<open>
  C10 says that the user is treated as authenticated exactly when a non-null
  \<^verbatim>\<open>access_token\<close> is stored. It fails on an empty stored token: the empty string
  is a non-null value, \<^verbatim>\<open>if (token)\<close> is false for it, and the login stack is
  shown.
\<close>

theorem C10_empty_token_counterexample:
  "App_render (fst (checkAuthStatus (Item (Some [])) App_initial)) = AuthStack
   \<and> isAuthenticated (fst (checkAuthStatus (Item (Some [])) App_initial)) = False
   \<and> Some [] \<noteq> (None :: string option)"
  by (simp add: checkAuthStatus_def App_render_def App_initial_def)

text \<open>
  C10, amended: at startup the user is treated as authenticated exactly when the storage
  read succeeds with a non-empty \<^verbatim>\<open>access_token\<close> string; then the main screens
  are shown, otherwise the login stack. The check sends no request to the backend, and a
  failed storage read leaves the user unauthenticated.
\<close>

theorem C10_authenticated_iff_nonempty_token:
  "isAuthenticated (fst (checkAuthStatus r App_initial)) = (\<exists>s. r = Item (Some s) \<and> s \<noteq> [])
   \<and> App_render (fst (checkAuthStatus r App_initial)) =
       (if \<exists>s. r = Item (Some s) \<and> s \<noteq> [] then MainTabs_and_Consent else AuthStack)
   \<and> filter is_fetch (snd (checkAuthStatus r App_initial)) = []
   \<and> isAuthenticated (fst (checkAuthStatus StorageError App_initial)) = False"
proof -
  have auth: "isAuthenticated (fst (checkAuthStatus r App_initial))
              = (\<exists>s. r = Item (Some s) \<and> s \<noteq> [])"
  proof (cases r)
    case StorageError
    then show ?thesis by (simp add: checkAuthStatus_def App_initial_def)
  next
    case (Item token)
    then show ?thesis
      by (cases token) (simp_all add: checkAuthStatus_def App_initial_def)
  qed
  have loaded: "isLoading (fst (checkAuthStatus r App_initial)) = False"
    by (cases r) (simp_all add: checkAuthStatus_def)
  have quiet: "filter is_fetch (snd (checkAuthStatus r App_initial)) = []"
    by (cases r) (simp_all add: checkAuthStatus_def)
  have failed: "isAuthenticated (fst (checkAuthStatus StorageError App_initial)) = False"
    by (simp add: checkAuthStatus_def App_initial_def)
  from auth loaded quiet failed show ?thesis
    by (simp add: App_render_def)
qed

text \<open>Witness for C10: a stored token opens the main screens, with no request sent.\<close>

theorem C10_authenticated_iff_nonempty_token_witness:
  "App_render (fst (checkAuthStatus (Item (Some ''tok'')) App_initial)) = MainTabs_and_Consent
   \<and> snd (checkAuthStatus (Item (Some ''tok'')) App_initial) = []"
  using C10_authenticated_iff_nonempty_token [of "Item (Some ''tok'')"]
  by (simp add: checkAuthStatus_def)

end
